theory Spec2Isabelle
  imports Complex_Main "HOL-Library.Sublist" "HOL-Library.Log_Nat"
begin

section \<open>DumbWish: the wishlist document and the image files (server.js)\<close>

text \<open>
  The model follows \<^verbatim>\<open>src/server.js\<close>. Each route handler is a function from the
  request and the state of the data directory to the response and the new state.
  The handlers are modelled from the point where the middleware in front of them
  (\<^verbatim>\<open>auth\<close>, \<^verbatim>\<open>upload.single('image')\<close>, \<^verbatim>\<open>express.json()\<close>) has called \<^verbatim>\<open>next()\<close>:
  a request carries the parsed body fields, the uploaded file that multer accepted
  (if any) and the route parameter after \<^verbatim>\<open>parseInt\<close>.

  What the environment decides is an explicit argument: the clock readings
  (\<^verbatim>\<open>Date.now()\<close>, \<^verbatim>\<open>new Date().toISOString()\<close>) and the behaviour of the image
  library \<^verbatim>\<open>sharp\<close>.
\<close>

subsection \<open>Doubles\<close>

text \<open>
  The numbers of the source are IEEE doubles. A finite double is the rational it
  stands for, and an arithmetic operation gives the exact result rounded to the
  nearest double, ties to the even significand (\<open>double\<close>; 53 bits, within the
  normal range, which the quotients and products of the source never leave).
  \<open>exponent x\<close> is the integer \<open>e\<close> with \<open>2 ^ e \<le> x < 2 ^ (e + 1)\<close>.
\<close>

definition exponent :: "rat \<Rightarrow> int" where
  "exponent x =
     (if 1 \<le> x then bitlen \<lfloor>x\<rfloor> - 1 else - bitlen (\<lceil>1 / x\<rceil> - 1))"

definition round_half_even :: "rat \<Rightarrow> int" where
  "round_half_even m =
     (if m - of_int \<lfloor>m\<rfloor> < 1 / 2 then \<lfloor>m\<rfloor>
      else if 1 / 2 < m - of_int \<lfloor>m\<rfloor> then \<lfloor>m\<rfloor> + 1
      else if even \<lfloor>m\<rfloor> then \<lfloor>m\<rfloor> else \<lfloor>m\<rfloor> + 1)"

definition double :: "rat \<Rightarrow> rat" where
  "double x =
     (if x = 0 then 0
      else sgn x * of_int (round_half_even (\<bar>x\<bar> / 2 powi (exponent \<bar>x\<bar> - 52)))
             * 2 powi (exponent \<bar>x\<bar> - 52))"

text \<open>
  \<^verbatim>\<open>a / b\<close> for integers \<open>a > 0\<close> and \<open>b\<close>: \<open>None\<close> is \<^verbatim>\<open>Infinity\<close>, the quotient by
  zero. \<^verbatim>\<open>Math.min\<close> of two such quotients.
\<close>

definition js_divide :: "int \<Rightarrow> int \<Rightarrow> rat option" where
  "js_divide a b = (if b = 0 then None else Some (double (of_int a / of_int b)))"

fun Math_min :: "rat option \<Rightarrow> rat option \<Rightarrow> rat option" where
  "Math_min None y = y"
| "Math_min (Some a) None = Some a"
| "Math_min (Some a) (Some b) = Some (min a b)"

text \<open>\<^verbatim>\<open>Math.round\<close> of a double: the nearest integer, a half upwards.\<close>

definition Math_round :: "rat \<Rightarrow> int" where
  "Math_round x = \<lfloor>x + 1 / 2\<rfloor>"

subsection \<open>JavaScript values\<close>

text \<open>
  The values a body field can hold. \<open>JUndefined\<close> is an absent property. \<open>JNum\<close> is a
  finite double other than negative zero; \<^verbatim>\<open>express.json()\<close> delivers \<open>JInfinity\<close> and
  \<open>JNegInfinity\<close> for a JSON number that overflows (\<^verbatim>\<open>1e400\<close>) and \<open>JNegZero\<close> for
  \<^verbatim>\<open>-0\<close>.
\<close>

datatype jsval =
    JUndefined
  | JNull
  | JBool bool
  | JNum rat
  | JNegZero
  | JInfinity
  | JNegInfinity
  | JNaN
  | JStr string
  | JArr "jsval list"
  | JObj "(string \<times> jsval) list"

text \<open>Truthiness, as \<^verbatim>\<open>!title\<close> and \<^verbatim>\<open>req.body.image || ...\<close> test it.\<close>

fun truthy :: "jsval \<Rightarrow> bool" where
  "truthy JUndefined = False"
| "truthy JNull = False"
| "truthy (JBool b) = b"
| "truthy (JNum n) = (n \<noteq> 0)"
| "truthy JNegZero = False"
| "truthy JInfinity = True"
| "truthy JNegInfinity = True"
| "truthy JNaN = False"
| "truthy (JStr s) = (s \<noteq> [])"
| "truthy (JArr xs) = True"
| "truthy (JObj kvs) = True"

text \<open>
  What \<^verbatim>\<open>JSON.parse\<close> reads from the text that \<^verbatim>\<open>JSON.stringify\<close> writes for the value
  of a property: a number that is not finite becomes \<^verbatim>\<open>null\<close>, negative zero becomes
  zero, \<^verbatim>\<open>undefined\<close> becomes \<^verbatim>\<open>null\<close> inside an array and drops the property of an
  object (so an undefined property stays absent).
\<close>

fun JSON_value :: "jsval \<Rightarrow> jsval" where
  "JSON_value JNegZero = JNum 0"
| "JSON_value JInfinity = JNull"
| "JSON_value JNegInfinity = JNull"
| "JSON_value JNaN = JNull"
| "JSON_value (JArr xs) = JArr (map (\<lambda>x. if x = JUndefined then JNull else JSON_value x) xs)"
| "JSON_value (JObj kvs) =
     JObj (map (\<lambda>(k, v). (k, JSON_value v)) (filter (\<lambda>(k, v). v \<noteq> JUndefined) kvs))"
| "JSON_value v = v"

text \<open>
  The result of \<^verbatim>\<open>parseInt(req.params.id)\<close>: an integer, \<^verbatim>\<open>NaN\<close>, or an infinity (for a
  digit string too long for a double).
\<close>

datatype jsnum = NaN | Number int | Infinity | MinusInfinity

text \<open>\<^verbatim>\<open>item.id === id\<close> for a stored integer id and a parsed parameter.\<close>

fun strict_eq :: "int \<Rightarrow> jsnum \<Rightarrow> bool" where
  "strict_eq n (Number m) = (n = m)"
| "strict_eq n i = False"

text \<open>
  The text of a number in a template literal, \<^verbatim>\<open>${id}\<close>. An integer below \<open>2 ^ 53\<close>
  prints as its decimal digits. From there on JavaScript prints the shortest
  decimal that reads back as the same double (the nearest one, if several of that
  length do), filled up with zeros, and with an exponent once that has more than
  21 digits: \<^verbatim>\<open>1e+21\<close>.
\<close>

definition digit :: "int \<Rightarrow> char" where
  "digit d = ''0123456789'' ! nat d"

function decimal :: "int \<Rightarrow> string" where
  "decimal n = (if n < 10 then [digit n] else decimal (n div 10) @ [digit (n mod 10)])"
  by pat_completeness auto
termination
  by (relation "measure nat") auto

definition reads_back :: "int \<Rightarrow> int \<Rightarrow> bool" where
  "reads_back v i = (double (of_int v) = of_int i)"

fun shortest :: "nat \<Rightarrow> int \<Rightarrow> int" where
  "shortest 0 i = i"
| "shortest (Suc m) i =
     (let p = 10 ^ Suc m; lo = (i div p) * p; hi = lo + p in
      if reads_back lo i \<and> reads_back hi i then
        (if i - lo < hi - i then lo else if hi - i < i - lo then hi
         else if even (i div p) then lo else hi)
      else if reads_back lo i then lo
      else if reads_back hi i then hi
      else shortest m i)"

definition exponential :: "string \<Rightarrow> string" where
  "exponential ds =
     (case rev (dropWhile (\<lambda>c. c = CHR ''0'') (rev ds)) of
        [] \<Rightarrow> ds
      | d # rest \<Rightarrow>
          d # (if rest = [] then [] else CHR ''.'' # rest) @ ''e+'' @ decimal (int (length ds) - 1))"

definition Number_toString :: "int \<Rightarrow> string" where
  "Number_toString i =
     (if i < 2 ^ 53 then decimal i
      else (let ds = decimal (shortest (length (decimal i) - 1) i)
            in if length ds \<le> 21 then ds else exponential ds))"

fun String_num :: "jsnum \<Rightarrow> string" where
  "String_num NaN = ''NaN''"
| "String_num (Number i) = (if i < 0 then CHR ''-'' # Number_toString (- i) else Number_toString i)"
| "String_num Infinity = ''Infinity''"
| "String_num MinusInfinity = ''-Infinity''"

subsection \<open>Items, requests, responses\<close>

record item =
  id_f :: int
  title :: jsval
  url :: jsval
  price :: jsval
  note_f :: jsval
  image_f :: jsval
  dateAdded :: jsval
  dateUpdated :: jsval

text \<open>
  An item as \<^verbatim>\<open>JSON.parse\<close> reads it back from the text \<^verbatim>\<open>JSON.stringify\<close> writes for it.
  The id is an integer and stays as it is.
\<close>

definition json_item :: "item \<Rightarrow> item" where
  "json_item it =
     it\<lparr>title := JSON_value (title it), url := JSON_value (url it),
        price := JSON_value (price it), note_f := JSON_value (note_f it),
        image_f := JSON_value (image_f it), dateAdded := JSON_value (dateAdded it),
        dateUpdated := JSON_value (dateUpdated it)\<rparr>"

type_synonym bytes = "nat list"

record request =
  body_title :: jsval
  body_url :: jsval
  body_price :: jsval
  body_note :: jsval
  body_image :: jsval
  req_file :: "bytes option"
  params_id :: jsnum

type_synonym path = string

text \<open>
  What is thrown inside a handler: the handler's own \<open>TitleRequired\<close> (status 400),
  and the errors of \<^verbatim>\<open>fs\<close>, \<^verbatim>\<open>JSON.parse\<close> and \<^verbatim>\<open>sharp\<close>, which carry no status.
\<close>

datatype exn =
    TitleRequired
  | ENOENT path
  | EACCES path
  | SyntaxError
  | SharpError

text \<open>
  The answers. \<open>PItem x\<close> and \<open>PItems xs\<close> are \<^verbatim>\<open>res.json\<close> called with the object \<open>x\<close> and
  with the parsed array \<open>xs\<close>.
\<close>

datatype payload =
    PItem item
  | PItems "item list"
  | PImageUrl string
  | PSuccess
  | PError string
  | PErrorOf exn

datatype reply = Reply nat payload

subsection \<open>The data directory\<close>

text \<open>
  A file holds either text that \<^verbatim>\<open>JSON.parse\<close> reads as the array \<open>xs\<close> of items
  (\<open>Json xs\<close>: what \<^verbatim>\<open>JSON.stringify(data, null, 2)\<close> wrote, or the initial \<^verbatim>\<open>[]\<close>), or
  anything else (\<open>Blob\<close>: image bytes, or text that does not parse; a text that
  parses to something other than an array of items, which no handler writes, is
  not told apart from it). The state also records which paths refuse writes and
  the sequence of file operations performed so far.
\<close>

datatype content = Json "item list" | Blob bytes

datatype fsop = ReadFile path | WriteFile path | Unlink path | ToFile path

record world =
  files :: "path \<rightharpoonup> content"
  unwritable :: "path set"
  trace :: "fsop list"

definition dataDir :: path where
  "dataDir = ''data''"

definition path_join :: "path \<Rightarrow> path \<Rightarrow> path" where
  "path_join d f = d @ CHR ''/'' # f"

definition dataFile :: path where
  "dataFile = path_join dataDir ''wishlist.json''"

definition maxImageSize :: int where
  "maxImageSize = 1024"

definition readFile :: "path \<Rightarrow> world \<Rightarrow> (exn + content) \<times> world" where
  "readFile p w =
     (case files w p of
        None \<Rightarrow> (Inl (ENOENT p), w\<lparr>trace := trace w @ [ReadFile p]\<rparr>)
      | Some c \<Rightarrow> (Inr c, w\<lparr>trace := trace w @ [ReadFile p]\<rparr>))"

definition JSON_parse :: "content \<Rightarrow> exn + item list" where
  "JSON_parse c = (case c of Json xs \<Rightarrow> Inr xs | Blob b \<Rightarrow> Inl SyntaxError)"

text \<open>\<^verbatim>\<open>fs.writeFile\<close>: refused on an unwritable path, otherwise the file is replaced.\<close>

definition writeFile :: "path \<Rightarrow> content \<Rightarrow> world \<Rightarrow> (exn + unit) \<times> world" where
  "writeFile p c w =
     (if p \<in> unwritable w then (Inl (EACCES p), w\<lparr>trace := trace w @ [WriteFile p]\<rparr>)
      else (Inr (), w\<lparr>files := (files w)(p \<mapsto> c), trace := trace w @ [WriteFile p]\<rparr>))"

definition unlink :: "path \<Rightarrow> world \<Rightarrow> (exn + unit) \<times> world" where
  "unlink p w =
     (if files w p = None then (Inl (ENOENT p), w\<lparr>trace := trace w @ [Unlink p]\<rparr>)
      else if p \<in> unwritable w then (Inl (EACCES p), w\<lparr>trace := trace w @ [Unlink p]\<rparr>)
      else (Inr (), w\<lparr>files := (files w)(p := None), trace := trace w @ [Unlink p]\<rparr>))"

subsection \<open>The image library\<close>

text \<open>
  \<^verbatim>\<open>sharp\<close> is not part of the repository, so its behaviour is a parameter:
  \<open>metadata\<close> gives the width and height of the decoded input, or fails;
  \<open>pipeline buffer width height\<close> is the outcome of
  \<^verbatim>\<open>.resize(width, height, {fit: 'inside', withoutEnlargement: true}).jpeg({quality: 80, chromaSubsampling: '4:4:4'})\<close>
  written to a file: the encoded bytes, or a failure together with what the
  failed write left at the path (nothing, or a partial file).
\<close>

datatype save_result = Saved bytes | SaveFailed "bytes option"

record sharp =
  metadata :: "bytes \<Rightarrow> (int \<times> int) option"
  pipeline :: "bytes \<Rightarrow> int \<Rightarrow> int \<Rightarrow> save_result"

text \<open>
  \<^verbatim>\<open>.toFile(imagePath)\<close> writes straight to the path it is given.
\<close>

definition toFile :: "sharp \<Rightarrow> bytes \<Rightarrow> int \<Rightarrow> int \<Rightarrow> path \<Rightarrow> world \<Rightarrow> (exn + unit) \<times> world" where
  "toFile sh buffer width height p w =
     (if p \<in> unwritable w then (Inl SharpError, w\<lparr>trace := trace w @ [ToFile p]\<rparr>)
      else (case pipeline sh buffer width height of
              Saved out \<Rightarrow> (Inr (), w\<lparr>files := (files w)(p \<mapsto> Blob out), trace := trace w @ [ToFile p]\<rparr>)
            | SaveFailed None \<Rightarrow> (Inl SharpError, w\<lparr>trace := trace w @ [ToFile p]\<rparr>)
            | SaveFailed (Some part) \<Rightarrow>
                (Inl SharpError, w\<lparr>files := (files w)(p \<mapsto> Blob part), trace := trace w @ [ToFile p]\<rparr>)))"

text \<open>
  Lines 79 to 87 of \<^verbatim>\<open>processImage\<close>: the width and height handed to \<^verbatim>\<open>resize\<close>,
  computed on doubles as the source does. \<open>maxDimension\<close> is the positive
  \<^verbatim>\<open>config.maxImageSize\<close>, and \<open>width\<close> and \<open>height\<close> are the integers that
  \<^verbatim>\<open>metadata()\<close> reports, which a double holds exactly. When the branch is taken one of the two quotients is
  finite; were both \<^verbatim>\<open>Infinity\<close> the source would compute \<^verbatim>\<open>NaN\<close> twice, which
  \<^verbatim>\<open>resize\<close> refuses as it refuses 0.
\<close>

definition dimensions :: "int \<Rightarrow> int \<Rightarrow> int \<Rightarrow> int \<times> int" where
  "dimensions maxDimension width height =
     (if width > maxDimension \<or> height > maxDimension then
        (case Math_min (js_divide maxDimension width) (js_divide maxDimension height) of
           None \<Rightarrow> (0, 0)
         | Some ratio \<Rightarrow>
             (Math_round (double (of_int width * ratio)),
              Math_round (double (of_int height * ratio))))
      else (width, height))"

definition imagePath :: "jsnum \<Rightarrow> path" where
  "imagePath i = path_join dataDir (String_num i @ ''.jpeg'')"

definition imageUrl :: "jsnum \<Rightarrow> string" where
  "imageUrl i = ''/api/images/'' @ String_num i @ ''.jpeg''"

definition processImage :: "sharp \<Rightarrow> bytes \<Rightarrow> jsnum \<Rightarrow> world \<Rightarrow> (exn + string) \<times> world" where
  "processImage sh buffer i w =
     (case metadata sh buffer of
        None \<Rightarrow> (Inl SharpError, w)
      | Some (width, height) \<Rightarrow>
          (case toFile sh buffer (fst (dimensions maxImageSize width height))
                  (snd (dimensions maxImageSize width height)) (imagePath i) w of
             (Inl e, w') \<Rightarrow> (Inl e, w')
           | (Inr u, w') \<Rightarrow> (Inr (imageUrl i), w')))"

text \<open>\<^verbatim>\<open>deleteImage\<close> catches every error of \<^verbatim>\<open>fs.unlink\<close>: it never throws.\<close>

definition deleteImage :: "jsnum \<Rightarrow> world \<Rightarrow> world" where
  "deleteImage i w = snd (unlink (imagePath i) w)"

subsection \<open>The route handlers\<close>

text \<open>\<^verbatim>\<open>errorHandler\<close>: the status of the error or 500, and its message.\<close>

fun errorHandler :: "exn \<Rightarrow> reply" where
  "errorHandler TitleRequired = Reply 400 (PError ''Title is required'')"
| "errorHandler e = Reply 500 (PErrorOf e)"

text \<open>\<^verbatim>\<open>GET /api/wishlist\<close> (the \<^verbatim>\<open>config\<close> part of the answer is left out).\<close>

definition get_wishlist :: "world \<Rightarrow> reply \<times> world" where
  "get_wishlist w =
     (case readFile dataFile w of
        (Inl e, w1) \<Rightarrow> (errorHandler e, w1)
      | (Inr c, w1) \<Rightarrow>
          (case JSON_parse c of
             Inl e \<Rightarrow> (errorHandler e, w1)
           | Inr data \<Rightarrow> (Reply 200 (PItems data), w1)))"

text \<open>\<^verbatim>\<open>POST /api/wishlist/image/:id\<close>.\<close>

definition post_wishlist_image :: "sharp \<Rightarrow> request \<Rightarrow> world \<Rightarrow> reply \<times> world" where
  "post_wishlist_image sh req w =
     (case req_file req of
        None \<Rightarrow> (Reply 400 (PError ''No image file provided''), w)
      | Some buffer \<Rightarrow>
          (case processImage sh buffer (params_id req) w of
             (Inl e, w') \<Rightarrow> (Reply 500 (PError ''Error processing image''), w')
           | (Inr u, w') \<Rightarrow> (Reply 200 (PImageUrl u), w')))"

text \<open>
  \<^verbatim>\<open>POST /api/wishlist\<close>. \<open>now\<close> is the reading of \<^verbatim>\<open>Date.now()\<close> and \<open>isoTime\<close> that of
  \<^verbatim>\<open>new Date().toISOString()\<close>.

  \<^verbatim>\<open>JSON.stringify(data, null, 2)\<close> writes a text that parses to the items the handler
  has read, which came out of \<^verbatim>\<open>JSON.parse\<close> and are written as they are, followed by
  what the new item reads back as.
\<close>

definition post_wishlist :: "sharp \<Rightarrow> int \<Rightarrow> string \<Rightarrow> request \<Rightarrow> world \<Rightarrow> reply \<times> world" where
  "post_wishlist sh now isoTime req w =
     (if \<not> truthy (body_title req) then (errorHandler TitleRequired, w)
      else
        (case readFile dataFile w of
           (Inl e, w1) \<Rightarrow> (errorHandler e, w1)
         | (Inr c, w1) \<Rightarrow>
             (case JSON_parse c of
                Inl e \<Rightarrow> (errorHandler e, w1)
              | Inr data \<Rightarrow>
                  (case (case req_file req of
                           None \<Rightarrow> (Inr (if truthy (body_image req) then body_image req else JNull), w1)
                         | Some buffer \<Rightarrow>
                             (case processImage sh buffer (Number now) w1 of
                                (Inl e, w2) \<Rightarrow> (Inl e, w2)
                              | (Inr u, w2) \<Rightarrow> (Inr (JStr u), w2))) of
                     (Inl e, w2) \<Rightarrow> (errorHandler e, w2)
                   | (Inr image', w2) \<Rightarrow>
                       (let newItem = \<lparr>id_f = now, title = body_title req, url = body_url req,
                                        price = body_price req, note_f = body_note req,
                                        image_f = image', dateAdded = JStr isoTime,
                                        dateUpdated = JUndefined\<rparr>
                        in (case writeFile dataFile (Json (data @ [json_item newItem])) w2 of
                              (Inl e, w3) \<Rightarrow> (errorHandler e, w3)
                            | (Inr u, w3) \<Rightarrow> (Reply 200 (PItem newItem), w3)))))))"

text \<open>\<^verbatim>\<open>Array.prototype.findIndex\<close>; \<open>None\<close> is the source's \<^verbatim>\<open>-1\<close>.\<close>

fun findIndex :: "('a \<Rightarrow> bool) \<Rightarrow> 'a list \<Rightarrow> nat option" where
  "findIndex P [] = None"
| "findIndex P (x # xs) =
     (if P x then Some 0 else (case findIndex P xs of None \<Rightarrow> None | Some i \<Rightarrow> Some (Suc i)))"

text \<open>
  \<^verbatim>\<open>PUT /api/wishlist/:id\<close>. Every exception ends in the one status 500. The text
  written parses to the items read, with what the updated item reads back as in
  its place.
\<close>

definition put_wishlist :: "sharp \<Rightarrow> string \<Rightarrow> request \<Rightarrow> world \<Rightarrow> reply \<times> world" where
  "put_wishlist sh isoTime req w =
     (if \<not> truthy (body_title req) then (Reply 400 (PError ''Title is required''), w)
      else
        (case readFile dataFile w of
           (Inl e, w1) \<Rightarrow> (Reply 500 (PError ''Error updating item''), w1)
         | (Inr c, w1) \<Rightarrow>
             (case JSON_parse c of
                Inl e \<Rightarrow> (Reply 500 (PError ''Error updating item''), w1)
              | Inr data \<Rightarrow>
                  (case findIndex (\<lambda>item. strict_eq (id_f item) (params_id req)) data of
                     None \<Rightarrow> (Reply 404 (PError ''Item not found''), w1)
                   | Some itemIndex \<Rightarrow>
                       (case (case req_file req of
                                None \<Rightarrow> (Inr (if truthy (body_image req) then body_image req
                                               else image_f (data ! itemIndex)), w1)
                              | Some buffer \<Rightarrow>
                                  (case processImage sh buffer (Number (id_f (data ! itemIndex))) w1 of
                                     (Inl e, w2) \<Rightarrow> (Inl e, w2)
                                   | (Inr u, w2) \<Rightarrow> (Inr (JStr u), w2))) of
                          (Inl e, w2) \<Rightarrow> (Reply 500 (PError ''Error updating item''), w2)
                        | (Inr image', w2) \<Rightarrow>
                            (let updatedItem = (data ! itemIndex)\<lparr>title := body_title req,
                                   url := body_url req, price := body_price req,
                                   note_f := body_note req, image_f := image',
                                   dateUpdated := JStr isoTime\<rparr>
                             in (case writeFile dataFile
                                        (Json (data[itemIndex := json_item updatedItem])) w2 of
                                   (Inl e, w3) \<Rightarrow> (Reply 500 (PError ''Error updating item''), w3)
                                 | (Inr u, w3) \<Rightarrow> (Reply 200 (PItem updatedItem), w3))))))))"

text \<open>\<^verbatim>\<open>DELETE /api/wishlist/:id\<close>.\<close>

definition delete_wishlist :: "request \<Rightarrow> world \<Rightarrow> reply \<times> world" where
  "delete_wishlist req w =
     (case readFile dataFile w of
        (Inl e, w1) \<Rightarrow> (Reply 500 (PError ''Error deleting item''), w1)
      | (Inr c, w1) \<Rightarrow>
          (case JSON_parse c of
             Inl e \<Rightarrow> (Reply 500 (PError ''Error deleting item''), w1)
           | Inr data \<Rightarrow>
               (let newData = filter (\<lambda>item. \<not> strict_eq (id_f item) (params_id req)) data
                in (case writeFile dataFile (Json newData) w1 of
                      (Inl e, w2) \<Rightarrow> (Reply 500 (PError ''Error deleting item''), w2)
                    | (Inr u, w2) \<Rightarrow> (Reply 200 PSuccess, deleteImage (params_id req) w2)))))"

subsection \<open>Notions used to state the properties\<close>

text \<open>The persisted collection: the items of the document, when it holds a readable one.\<close>

definition collection :: "world \<Rightarrow> item list" where
  "collection w = (case files w dataFile of Some (Json xs) \<Rightarrow> xs | Some (Blob b) \<Rightarrow> [] | None \<Rightarrow> [])"

text \<open>
  The values that JSON text denotes (\<open>json_text\<close>: \<^verbatim>\<open>null\<close>, booleans, finite numbers other
  than negative zero, strings, arrays and objects of such values), and the values
  of a property that pass through \<^verbatim>\<open>JSON.stringify\<close> and \<^verbatim>\<open>JSON.parse\<close> unchanged
  (\<open>round_trips\<close>: an absent property, or a value that JSON text denotes).
\<close>

fun json_text :: "jsval \<Rightarrow> bool" where
  "json_text JNull = True"
| "json_text (JBool b) = True"
| "json_text (JNum n) = True"
| "json_text (JStr s) = True"
| "json_text (JArr xs) = list_all json_text xs"
| "json_text (JObj kvs) = list_all json_text (map snd kvs)"
| "json_text v = False"

definition round_trips :: "jsval \<Rightarrow> bool" where
  "round_trips v = (v = JUndefined \<or> json_text v)"

text \<open>
  The conditions under which \<open>processImage\<close> goes through: the library decodes the
  buffer, the pipeline renders it at the computed dimensions, and the target path
  accepts the write.
\<close>

definition storable :: "sharp \<Rightarrow> bytes \<Rightarrow> jsnum \<Rightarrow> world \<Rightarrow> bool" where
  "storable sh buffer i w =
     (case metadata sh buffer of
        None \<Rightarrow> False
      | Some (width, height) \<Rightarrow>
          imagePath i \<notin> unwritable w \<and>
          (case pipeline sh buffer (fst (dimensions maxImageSize width height))
                  (snd (dimensions maxImageSize width height)) of
             Saved out \<Rightarrow> True
           | SaveFailed left \<Rightarrow> False))"

text \<open>A sequence of create requests, each with its two clock readings, run one after the other.\<close>

fun run_creates :: "sharp \<Rightarrow> (int \<times> string \<times> request) list \<Rightarrow> world \<Rightarrow> world" where
  "run_creates sh [] w = w"
| "run_creates sh ((now, isoTime, req) # calls) w =
     run_creates sh calls (snd (post_wishlist sh now isoTime req w))"

subsection \<open>Concrete states and requests\<close>

text \<open>The data directory as \<^verbatim>\<open>ensureDataDir\<close> leaves it on a first start: the document is \<^verbatim>\<open>[]\<close>.\<close>

definition first_start :: world where
  "first_start = \<lparr>files = [dataFile \<mapsto> Json []], unwritable = {}, trace = []\<rparr>"

definition book :: request where
  "book = \<lparr>body_title = JStr ''Book'', body_url = JStr ''https://example.org/book'',
            body_price = JStr ''12.50'', body_note = JUndefined, body_image = JUndefined,
            req_file = None, params_id = NaN\<rparr>"

definition untitled :: request where
  "untitled = \<lparr>body_title = JStr [], body_url = JStr ''https://example.org/book'',
                body_price = JUndefined, body_note = JUndefined, body_image = JUndefined,
                req_file = None, params_id = NaN\<rparr>"

definition pen :: item where
  "pen = \<lparr>id_f = 1700000000007, title = JStr ''Pen'', url = JUndefined, price = JNum 3,
           note_f = JUndefined, image_f = JStr ''/api/images/1700000000007.jpeg'',
           dateAdded = JStr ''2024-01-01T00:00:00.000Z'', dateUpdated = JUndefined\<rparr>"

definition ink :: item where
  "ink = \<lparr>id_f = 1700000000009, title = JStr ''Ink'', url = JUndefined, price = JUndefined,
           note_f = JStr ''blue'', image_f = JNull,
           dateAdded = JStr ''2024-01-02T00:00:00.000Z'', dateUpdated = JUndefined\<rparr>"

definition desk :: world where
  "desk = \<lparr>files = [dataFile \<mapsto> Json [pen, ink],
                     imagePath (Number 1700000000007) \<mapsto> Blob [255, 216, 255, 224]],
            unwritable = {}, trace = []\<rparr>"

text \<open>A request that names the first item and carries new text fields but no image.\<close>

definition retitle :: request where
  "retitle = \<lparr>body_title = JStr ''Fountain pen'', body_url = JUndefined, body_price = JNum 4,
               body_note = JUndefined, body_image = JUndefined,
               req_file = None, params_id = Number 1700000000007\<rparr>"

text \<open>A request without a body that names the first item, as \<^verbatim>\<open>DELETE\<close> receives it.\<close>

definition discard :: request where
  "discard = \<lparr>body_title = JUndefined, body_url = JUndefined, body_price = JUndefined,
               body_note = JUndefined, body_image = JUndefined,
               req_file = None, params_id = Number 1700000000007\<rparr>"

text \<open>An upload for id 5, which no item of \<open>desk\<close> carries.\<close>

definition upload :: request where
  "upload = \<lparr>body_title = JUndefined, body_url = JUndefined, body_price = JUndefined,
              body_note = JUndefined, body_image = JUndefined,
              req_file = Some [137, 80, 78, 71], params_id = Number 5\<rparr>"

text \<open>An upload for the id of the first item, whose image file exists.\<close>

definition reupload :: request where
  "reupload = \<lparr>body_title = JUndefined, body_url = JUndefined, body_price = JUndefined,
                body_note = JUndefined, body_image = JUndefined,
                req_file = Some [137, 80, 78, 71], params_id = Number 1700000000007\<rparr>"

text \<open>
  A stand-in for the library in which an image is the list of its width and
  height. Its pipeline refuses a target that is not positive, as \<^verbatim>\<open>resize\<close> does, and
  otherwise gives the largest image with the proportions of the input that fits
  inside the target box (\<^verbatim>\<open>fit: 'inside'\<close>) without being enlarged.
\<close>

definition inside_box :: "int \<Rightarrow> int \<Rightarrow> int \<Rightarrow> int \<Rightarrow> int \<times> int" where
  "inside_box width height box_width box_height =
     (let scale = min 1 (min (rat_of_int box_width / of_int width)
                             (rat_of_int box_height / of_int height))
      in (max 1 (Math_round (of_int width * scale)), max 1 (Math_round (of_int height * scale))))"

definition resizer :: sharp where
  "resizer =
     \<lparr>metadata = (\<lambda>buffer. case buffer of
                     [w, h] \<Rightarrow> if 0 < w \<and> 0 < h then Some (int w, int h) else None
                   | _ \<Rightarrow> None),
      pipeline = (\<lambda>buffer width height. case buffer of
                     [w, h] \<Rightarrow>
                       if 0 < w \<and> 0 < h \<and> 0 < width \<and> 0 < height
                       then Saved [nat (fst (inside_box (int w) (int h) width height)),
                                   nat (snd (inside_box (int w) (int h) width height))]
                       else SaveFailed None
                   | _ \<Rightarrow> SaveFailed None)\<rparr>"

text \<open>An upload for id 5 of an image 4000 wide and 1 high.\<close>

definition sliver :: request where
  "sliver = \<lparr>body_title = JUndefined, body_url = JUndefined, body_price = JUndefined,
              body_note = JUndefined, body_image = JUndefined,
              req_file = Some [4000, 1], params_id = Number 5\<rparr>"

text \<open>The body \<^verbatim>\<open>{"title": "Book", "price": 1e400}\<close> as \<^verbatim>\<open>express.json()\<close> delivers it.\<close>

definition costly :: request where
  "costly = \<lparr>body_title = JStr ''Book'', body_url = JUndefined, body_price = JInfinity,
              body_note = JUndefined, body_image = JUndefined,
              req_file = None, params_id = NaN\<rparr>"

text \<open>
  Two behaviours of the image library on a 3000 by 1500 input: one that renders it,
  and one whose write fails after part of the output has reached the file.
\<close>

definition rendering :: sharp where
  "rendering = \<lparr>metadata = (\<lambda>buffer. Some (3000, 1500)),
                 pipeline = (\<lambda>buffer width height. Saved [255, 216, 255])\<rparr>"

definition torn :: sharp where
  "torn = \<lparr>metadata = (\<lambda>buffer. Some (3000, 1500)),
            pipeline = (\<lambda>buffer width height. SaveFailed (Some [255, 216]))\<rparr>"

section \<open>Auxiliary facts\<close>

subsection \<open>Paths\<close>

lemma imagePath_neq_dataFile: "imagePath i \<noteq> dataFile"
proof
  assume "imagePath i = dataFile"
  then have "last (imagePath i) = last dataFile" by simp
  then show False by (simp add: imagePath_def dataFile_def path_join_def)
qed

subsection \<open>Rounding to doubles and the target dimensions\<close>

















text \<open>
  The products are rounded to doubles before \<^verbatim>\<open>Math.round\<close> sees them: for 100352 by
  49 the ratio \<open>1024 / 100352\<close> is rounded down, so is the product that would be
  one half, and the height becomes 0. A width of 0 leaves the ratio of the height.
\<close>

lemma dimensions_examples:
  "dimensions 1024 3000 1500 = (1024, 512)"
  "dimensions 1024 400 300 = (400, 300)"
  "dimensions 1024 100352 49 = (1024, 0)"
  "dimensions 1024 0 2000 = (0, 1024)"
  by code_simp+

subsection \<open>The image pipeline\<close>

lemma processImage_storable:
  assumes "storable sh buffer i w"
  shows "\<exists>out. processImage sh buffer i w =
           (Inr (imageUrl i), w\<lparr>files := (files w)(imagePath i \<mapsto> Blob out),
                                 trace := trace w @ [ToFile (imagePath i)]\<rparr>)"
  using assms
  by (auto simp: storable_def processImage_def toFile_def split: option.splits save_result.splits)

lemma processImage_not_storable:
  assumes "\<not> storable sh buffer i w"
  shows "\<exists>e w'. processImage sh buffer i w = (Inl e, w')"
  using assms
  by (auto simp: storable_def processImage_def toFile_def split: option.splits save_result.splits)

lemma storable_trace: "storable sh buffer i (w\<lparr>trace := t\<rparr>) = storable sh buffer i w"
  by (simp add: storable_def split: option.splits prod.splits)

lemma processImage_frame:
  assumes "processImage sh buffer i w = (r, w')"
  shows "unwritable w' = unwritable w \<and> (\<forall>p. p \<noteq> imagePath i \<longrightarrow> files w' p = files w p)"
  using assms
  by (auto simp: processImage_def toFile_def split: option.splits save_result.splits if_splits)

subsection \<open>Searching the collection\<close>

lemma findIndex_Some:
  "findIndex P xs = Some i \<Longrightarrow> i < length xs \<and> P (xs ! i) \<and> (\<forall>j<i. \<not> P (xs ! j))"
proof (induction xs arbitrary: i)
  case Nil
  then show ?case by simp
next
  case (Cons x xs)
  show ?case
  proof (cases "P x")
    case True
    with Cons.prems show ?thesis by simp
  next
    case False
    with Cons.prems obtain k where k: "findIndex P xs = Some k" "i = Suc k"
      by (auto split: option.splits)
    from Cons.IH [OF k(1)] False k(2) show ?thesis
      by (auto simp: nth_Cons split: nat.splits)
  qed
qed

lemma findIndex_None_iff: "findIndex P xs = None \<longleftrightarrow> (\<forall>x\<in>set xs. \<not> P x)"
  by (induction xs) (auto split: option.splits)

lemma findIndex_exists:
  "\<exists>x\<in>set xs. P x \<Longrightarrow> \<exists>i. findIndex P xs = Some i"
  using findIndex_None_iff [of P xs] by (cases "findIndex P xs") auto

subsection \<open>The JSON round trip\<close>

lemma JSON_value_undefined: "JSON_value v = JUndefined \<longleftrightarrow> v = JUndefined"
  by (cases v) auto

lemma JSON_value_idem: "JSON_value (JSON_value v) = JSON_value v"
proof (induction v rule: JSON_value.induct)
  case (5 xs)
  then show ?case by (auto simp: JSON_value_undefined)
next
  case (6 kvs)
  then show ?case
    by (auto simp: JSON_value_undefined filter_map o_def case_prod_unfold filter_id_conv)
qed simp_all

lemma JSON_value_json_text: "json_text v \<Longrightarrow> JSON_value v = v"
proof (induction v rule: json_text.induct)
  case (5 xs)
  have "map (\<lambda>x. if x = JUndefined then JNull else JSON_value x) xs = map (\<lambda>x. x) xs"
  proof (rule map_cong [OF refl])
    fix x assume x: "x \<in> set xs"
    with 5 have t: "json_text x" by (simp add: list_all_iff)
    then have "x \<noteq> JUndefined" by auto
    with 5 x t show "(if x = JUndefined then JNull else JSON_value x) = x" by simp
  qed
  then show ?case by simp
next
  case (6 kvs)
  have t: "json_text (snd kv)" if "kv \<in> set kvs" for kv
    using 6(2) that by (simp add: list_all_iff)
  have f: "filter (\<lambda>(k, v). v \<noteq> JUndefined) kvs = kvs"
  proof (rule filter_True)
    show "\<forall>kv\<in>set kvs. case kv of (k, v) \<Rightarrow> v \<noteq> JUndefined"
    proof
      fix kv assume "kv \<in> set kvs"
      then have "json_text (snd kv)" by (rule t)
      then have "snd kv \<noteq> JUndefined" by auto
      then show "case kv of (k, v) \<Rightarrow> v \<noteq> JUndefined" by (simp add: case_prod_unfold)
    qed
  qed
  have "map (\<lambda>(k, v). (k, JSON_value v)) kvs = map (\<lambda>kv. kv) kvs"
  proof (rule map_cong [OF refl])
    fix kv assume kv: "kv \<in> set kvs"
    then have "JSON_value (snd kv) = snd kv" using 6(1) t by simp
    then show "(case kv of (k, v) \<Rightarrow> (k, JSON_value v)) = kv" by (cases kv) simp
  qed
  then show ?case by (simp add: f)
qed simp_all

lemma JSON_value_round_trips: "round_trips v \<Longrightarrow> JSON_value v = v"
  by (auto simp: round_trips_def JSON_value_json_text)

lemma json_item_idem: "json_item (json_item x) = json_item x"
  by (simp add: json_item_def JSON_value_idem)

lemma id_json_item: "id_f (json_item x) = id_f x"
  by (simp add: json_item_def)

subsection \<open>The handlers on their success paths\<close>

lemma post_wishlist_success:
  assumes t: "truthy (body_title req)"
    and d: "files w dataFile = Some (Json xs)"
    and wr: "dataFile \<notin> unwritable w"
    and up: "case req_file req of None \<Rightarrow> True | Some buffer \<Rightarrow> storable sh buffer (Number now) w"
  shows "\<exists>w'. post_wishlist sh now isoTime req w =
           (Reply 200 (PItem \<lparr>id_f = now, title = body_title req, url = body_url req,
                     price = body_price req, note_f = body_note req,
                     image_f = (case req_file req of
                                  None \<Rightarrow> if truthy (body_image req) then body_image req else JNull
                                | Some buffer \<Rightarrow> JStr (imageUrl (Number now))),
                     dateAdded = JStr isoTime, dateUpdated = JUndefined\<rparr>), w') \<and>
           files w' dataFile = Some (Json (xs @ [json_item \<lparr>id_f = now, title = body_title req, url = body_url req,
                     price = body_price req, note_f = body_note req,
                     image_f = (case req_file req of
                                  None \<Rightarrow> if truthy (body_image req) then body_image req else JNull
                                | Some buffer \<Rightarrow> JStr (imageUrl (Number now))),
                     dateAdded = JStr isoTime, dateUpdated = JUndefined\<rparr>])) \<and>
           unwritable w' = unwritable w"
proof (cases "req_file req")
  case None
  then show ?thesis using t d wr
    by (simp add: post_wishlist_def readFile_def JSON_parse_def writeFile_def Let_def)
next
  case (Some buffer)
  with up have "storable sh buffer (Number now) (w\<lparr>trace := trace w @ [ReadFile dataFile]\<rparr>)"
    by (simp add: storable_trace)
  from processImage_storable [OF this] obtain out where
    "processImage sh buffer (Number now) (w\<lparr>trace := trace w @ [ReadFile dataFile]\<rparr>) =
       (Inr (imageUrl (Number now)),
        w\<lparr>trace := trace w @ [ReadFile dataFile],
          files := (files w)(imagePath (Number now) \<mapsto> Blob out),
          trace := (trace w @ [ReadFile dataFile]) @ [ToFile (imagePath (Number now))]\<rparr>)"
    by auto
  then show ?thesis using Some t d wr imagePath_neq_dataFile [of "Number now"]
    by (simp add: post_wishlist_def readFile_def JSON_parse_def writeFile_def Let_def)
qed

lemma post_wishlist_collection:
  "collection (snd (post_wishlist sh now isoTime req w)) = collection w \<or>
   (\<exists>it. id_f it = now \<and> collection (snd (post_wishlist sh now isoTime req w)) = collection w @ [it])"
proof -
  have pf: "\<And>buffer w1 r w2. processImage sh buffer (Number now) w1 = (r, w2)
              \<Longrightarrow> files w2 dataFile = files w1 dataFile"
    using processImage_frame imagePath_neq_dataFile by (metis)
  show ?thesis
    by (auto simp: post_wishlist_def readFile_def JSON_parse_def writeFile_def collection_def Let_def
          id_json_item dest!: pf
          split: option.splits content.splits sum.splits prod.splits if_splits)
qed

lemma get_wishlist_doc:
  "files w dataFile = Some (Json xs) \<Longrightarrow> fst (get_wishlist w) = Reply 200 (PItems xs)"
  by (simp add: get_wishlist_def readFile_def JSON_parse_def)

lemma put_wishlist_success:
  assumes t: "truthy (body_title req)"
    and d: "files w dataFile = Some (Json xs)"
    and wr: "dataFile \<notin> unwritable w"
    and fi: "findIndex (\<lambda>item. strict_eq (id_f item) (params_id req)) xs = Some i"
    and up: "case req_file req of None \<Rightarrow> True
             | Some buffer \<Rightarrow> storable sh buffer (Number (id_f (xs ! i))) w"
  shows "\<exists>w'. put_wishlist sh isoTime req w =
           (Reply 200 (PItem ((xs ! i)\<lparr>title := body_title req, url := body_url req,
                     price := body_price req, note_f := body_note req,
                     image_f := (case req_file req of
                                  None \<Rightarrow> if truthy (body_image req) then body_image req
                                          else image_f (xs ! i)
                                | Some buffer \<Rightarrow> JStr (imageUrl (Number (id_f (xs ! i))))),
                     dateUpdated := JStr isoTime\<rparr>)), w') \<and>
           files w' dataFile = Some (Json (xs[i := json_item ((xs ! i)\<lparr>title := body_title req, url := body_url req,
                     price := body_price req, note_f := body_note req,
                     image_f := (case req_file req of
                                  None \<Rightarrow> if truthy (body_image req) then body_image req
                                          else image_f (xs ! i)
                                | Some buffer \<Rightarrow> JStr (imageUrl (Number (id_f (xs ! i))))),
                     dateUpdated := JStr isoTime\<rparr>)]))"
proof (cases "req_file req")
  case None
  then show ?thesis using t d wr fi
    by (simp add: put_wishlist_def readFile_def JSON_parse_def writeFile_def Let_def)
next
  case (Some buffer)
  with up have "storable sh buffer (Number (id_f (xs ! i))) (w\<lparr>trace := trace w @ [ReadFile dataFile]\<rparr>)"
    by (simp add: storable_trace)
  from processImage_storable [OF this] obtain out where
    "processImage sh buffer (Number (id_f (xs ! i))) (w\<lparr>trace := trace w @ [ReadFile dataFile]\<rparr>) =
       (Inr (imageUrl (Number (id_f (xs ! i)))),
        w\<lparr>trace := trace w @ [ReadFile dataFile],
          files := (files w)(imagePath (Number (id_f (xs ! i))) \<mapsto> Blob out),
          trace := (trace w @ [ReadFile dataFile]) @ [ToFile (imagePath (Number (id_f (xs ! i))))]\<rparr>)"
    by auto
  then show ?thesis using Some t d wr fi imagePath_neq_dataFile [of "Number (id_f (xs ! i))"]
    by (simp add: put_wishlist_def readFile_def JSON_parse_def writeFile_def Let_def)
qed

lemma put_wishlist_found:
  assumes t: "truthy (body_title req)"
    and d: "files w dataFile = Some (Json xs)"
    and wr: "dataFile \<notin> unwritable w"
    and ex: "\<exists>item\<in>set xs. strict_eq (id_f item) (params_id req)"
    and up: "case req_file req of None \<Rightarrow> True
             | Some buffer \<Rightarrow> storable sh buffer (params_id req) w"
  shows "\<exists>i u w'. put_wishlist sh isoTime req w = (Reply 200 (PItem u), w') \<and>
           i < length xs \<and> strict_eq (id_f (xs ! i)) (params_id req) \<and>
           (\<forall>j<i. \<not> strict_eq (id_f (xs ! j)) (params_id req)) \<and>
           files w' dataFile = Some (Json (xs[i := json_item u])) \<and>
           u = (xs ! i)\<lparr>title := body_title req, url := body_url req,
                     price := body_price req, note_f := body_note req,
                     image_f := (case req_file req of
                                  None \<Rightarrow> if truthy (body_image req) then body_image req
                                          else image_f (xs ! i)
                                | Some buffer \<Rightarrow> JStr (imageUrl (params_id req))),
                     dateUpdated := JStr isoTime\<rparr>"
proof -
  from findIndex_exists [of xs "\<lambda>item. strict_eq (id_f item) (params_id req)"] ex
  obtain i where fi: "findIndex (\<lambda>item. strict_eq (id_f item) (params_id req)) xs = Some i"
    by blast
  note fs = findIndex_Some [OF fi]
  from fs have pid: "params_id req = Number (id_f (xs ! i))"
    by (cases "params_id req") auto
  have up': "case req_file req of None \<Rightarrow> True
             | Some buffer \<Rightarrow> storable sh buffer (Number (id_f (xs ! i))) w"
    using up pid by (simp split: option.splits)
  let ?u = "(xs ! i)\<lparr>title := body_title req, url := body_url req,
                     price := body_price req, note_f := body_note req,
                     image_f := (case req_file req of
                                  None \<Rightarrow> if truthy (body_image req) then body_image req
                                          else image_f (xs ! i)
                                | Some buffer \<Rightarrow> JStr (imageUrl (Number (id_f (xs ! i))))),
                     dateUpdated := JStr isoTime\<rparr>"
  from put_wishlist_success [OF t d wr fi up', of isoTime] obtain w' where
    w': "put_wishlist sh isoTime req w = (Reply 200 (PItem ?u), w')"
        "files w' dataFile = Some (Json (xs[i := json_item ?u]))"
    by blast
  show ?thesis
    by (intro exI [of _ i] exI [of _ ?u] exI [of _ w']) (use w' fs pid in \<open>simp split: option.splits\<close>)
qed

lemma deleteImage_frame:
  "unwritable (deleteImage i w) = unwritable w \<and>
   (\<forall>p. p \<noteq> imagePath i \<longrightarrow> files (deleteImage i w) p = files w p)"
  by (simp add: deleteImage_def unlink_def)

lemma delete_wishlist_success:
  assumes d: "files w dataFile = Some (Json xs)"
    and wr: "dataFile \<notin> unwritable w"
  shows "delete_wishlist req w =
           (Reply 200 PSuccess,
            deleteImage (params_id req)
              (w\<lparr>files := (files w)(dataFile \<mapsto>
                     Json (filter (\<lambda>item. \<not> strict_eq (id_f item) (params_id req)) xs)),
                  trace := trace w @ [ReadFile dataFile, WriteFile dataFile]\<rparr>))"
  using d wr
  by (simp add: delete_wishlist_def readFile_def JSON_parse_def writeFile_def Let_def)

lemma delete_wishlist_doc:
  assumes d: "files w dataFile = Some (Json xs)"
    and wr: "dataFile \<notin> unwritable w"
  shows "files (snd (delete_wishlist req w)) dataFile =
           Some (Json (filter (\<lambda>item. \<not> strict_eq (id_f item) (params_id req)) xs)) \<and>
         unwritable (snd (delete_wishlist req w)) = unwritable w"
  using imagePath_neq_dataFile [of "params_id req"]
  by (simp add: delete_wishlist_success [OF d wr] deleteImage_frame)

lemma filter_distinct_one:
  assumes "distinct (map f xs)" "x \<in> set xs"
  shows "\<exists>pre post. xs = pre @ x # post \<and> filter (\<lambda>y. f y \<noteq> f x) xs = pre @ post"
proof -
  from assms(2) obtain pre post where xs: "xs = pre @ x # post"
    by (auto simp: in_set_conv_decomp)
  with assms(1) have "\<forall>y\<in>set pre \<union> set post. f y \<noteq> f x"
    by (auto simp: image_iff)
  then have "filter (\<lambda>y. f y \<noteq> f x) xs = pre @ post"
    by (simp add: xs filter_id_conv)
  with xs show ?thesis by blast
qed

lemma filter_strict_eq:
  "strict_eq (id_f x) i \<Longrightarrow>
     filter (\<lambda>item. \<not> strict_eq (id_f item) i) xs = filter (\<lambda>item. id_f item \<noteq> id_f x) xs"
  by (cases i) auto

subsection \<open>The example state\<close>

lemma desk_doc: "files desk dataFile = Some (Json [pen, ink])"
  using imagePath_neq_dataFile [of "Number 1700000000007"] by (auto simp: desk_def)

section \<open>The properties\<close>

text \<open>
  C1 (as amended). The id of a new item is the reading of \<^verbatim>\<open>Date.now()\<close> and nothing
  compares it with the ids already stored. So: when the ids of the persisted
  collection are pairwise distinct and the clock readings of a sequence of create
  requests are pairwise distinct and differ from every stored id, the ids of the
  persisted collection are pairwise distinct after the whole sequence (whichever of
  the requests succeed).
\<close>

theorem C1_distinct_ids_with_fresh_clock:
  assumes "distinct (map id_f (collection w) @ map fst calls)"
  shows "distinct (map id_f (collection (run_creates sh calls w)))"
  using assms
proof (induction calls arbitrary: w)
  case Nil
  then show ?case by simp
next
  case (Cons call calls)
  obtain now isoTime req where call: "call = (now, isoTime, req)"
    by (cases call) auto
  let ?w' = "snd (post_wishlist sh now isoTime req w)"
  from Cons.prems have D: "distinct (map id_f (collection w) @ now # map fst calls)"
    by (simp add: call)
  have D1: "distinct (map id_f (collection w) @ map fst calls)"
    using D by (simp add: disjoint_iff)
  have D2: "distinct (map id_f (collection w @ [it]) @ map fst calls)" if "id_f it = now" for it
    using D that by (simp add: disjoint_iff)
  have "distinct (map id_f (collection ?w') @ map fst calls)"
    using post_wishlist_collection [of sh now isoTime req w] D1 D2
    by metis
  from Cons.IH [OF this] show ?case by (simp add: call)
qed

theorem C1_distinct_ids_with_fresh_clock_witness:
  "distinct (map id_f (collection first_start) @
      map fst [(1700000000000, ''2023-11-14T22:13:20.000Z'', book),
               (1700000000001, ''2023-11-14T22:13:20.001Z'', book)]) \<and>
   map id_f (collection (run_creates rendering
      [(1700000000000, ''2023-11-14T22:13:20.000Z'', book),
       (1700000000001, ''2023-11-14T22:13:20.001Z'', book)] first_start))
     = [1700000000000, 1700000000001] \<and>
   distinct (map id_f (collection (run_creates rendering
      [(1700000000000, ''2023-11-14T22:13:20.000Z'', book),
       (1700000000001, ''2023-11-14T22:13:20.001Z'', book)] first_start)))"
  using C1_distinct_ids_with_fresh_clock [of first_start
      "[(1700000000000, ''2023-11-14T22:13:20.000Z'', book),
        (1700000000001, ''2023-11-14T22:13:20.001Z'', book)]" rendering]
  by (simp add: first_start_def book_def collection_def post_wishlist_def readFile_def
        JSON_parse_def writeFile_def Let_def json_item_def)

text \<open>
  Without the condition on the clock the ids need not be distinct: two create
  requests that read the same millisecond, one after the other on a first start,
  both succeed and leave two items with the same id.
\<close>

theorem C1_same_millisecond_counterexample:
  "map id_f (collection (run_creates rendering
      [(1700000000000, ''2023-11-14T22:13:20.000Z'', book),
       (1700000000000, ''2023-11-14T22:13:20.000Z'', book)] first_start))
     = [1700000000000, 1700000000000] \<and>
   \<not> distinct (map id_f (collection (run_creates rendering
      [(1700000000000, ''2023-11-14T22:13:20.000Z'', book),
       (1700000000000, ''2023-11-14T22:13:20.000Z'', book)] first_start)))"
  by (simp add: first_start_def book_def collection_def post_wishlist_def readFile_def
        JSON_parse_def writeFile_def Let_def json_item_def)

text \<open>
  C2 (as amended). With a readable and writable document, \<^verbatim>\<open>DELETE\<close> answers with
  success and the new collection is the old one without every item whose id equals
  the parameter, the rest in their old order. When the ids of the collection are
  pairwise distinct and an item carries the id, exactly that one element is removed:
  the collection splits around it and its length drops by one.
\<close>

theorem C2_delete_removes_matching:
  assumes "files w dataFile = Some (Json xs)"
    and "dataFile \<notin> unwritable w"
  shows "\<exists>w'. delete_wishlist req w = (Reply 200 PSuccess, w') \<and>
           collection w' = filter (\<lambda>item. \<not> strict_eq (id_f item) (params_id req)) xs \<and>
           subseq (collection w') xs \<and>
           (distinct (map id_f xs) \<longrightarrow>
              (\<forall>item\<in>set xs. strict_eq (id_f item) (params_id req) \<longrightarrow>
                 (\<exists>pre post. xs = pre @ item # post \<and> collection w' = pre @ post \<and>
                    length (collection w') + 1 = length xs)))"
proof -
  let ?w' = "snd (delete_wishlist req w)"
  have r: "delete_wishlist req w = (Reply 200 PSuccess, ?w')"
    by (simp add: delete_wishlist_success [OF assms])
  have c: "collection ?w' = filter (\<lambda>item. \<not> strict_eq (id_f item) (params_id req)) xs"
    using delete_wishlist_doc [OF assms, of req] by (simp add: collection_def)
  have one: "\<exists>pre post. xs = pre @ item # post \<and> collection ?w' = pre @ post \<and>
                    length (collection ?w') + 1 = length xs"
    if "distinct (map id_f xs)" "item \<in> set xs" "strict_eq (id_f item) (params_id req)" for item
  proof -
    from filter_distinct_one [OF that(1,2)] obtain pre post where
      "xs = pre @ item # post" "filter (\<lambda>y. id_f y \<noteq> id_f item) xs = pre @ post"
      by blast
    then show ?thesis using c filter_strict_eq [OF that(3), of xs] by auto
  qed
  show ?thesis
    by (rule exI [of _ ?w']) (use r c one in auto)
qed

theorem C2_delete_removes_matching_witness:
  "files desk dataFile = Some (Json [pen, ink]) \<and> dataFile \<notin> unwritable desk \<and>
   distinct (map id_f [pen, ink]) \<and> strict_eq (id_f pen) (params_id discard) \<and>
   (\<exists>w'. delete_wishlist discard desk = (Reply 200 PSuccess, w') \<and> collection w' = [ink])"
proof -
  have h: "files desk dataFile = Some (Json [pen, ink])" "dataFile \<notin> unwritable desk"
    using desk_doc by (simp_all add: desk_def)
  from C2_delete_removes_matching [OF h, of discard] obtain w' where
    "delete_wishlist discard desk = (Reply 200 PSuccess, w')"
    "collection w' = filter (\<lambda>item. \<not> strict_eq (id_f item) (params_id discard)) [pen, ink]"
    by blast
  then show ?thesis using h by (auto simp: pen_def ink_def discard_def)
qed

text \<open>
  Without distinct ids more than one element can go: the collection that two
  create requests of the same millisecond built holds an item with the id, and one
  \<^verbatim>\<open>DELETE\<close> removes both of its elements.
\<close>

theorem C2_duplicate_ids_counterexample:
  "map id_f (collection (run_creates rendering
      [(1700000000000, ''2023-11-14T22:13:20.000Z'', book),
       (1700000000000, ''2023-11-14T22:13:20.000Z'', book)] first_start))
     = [1700000000000, 1700000000000] \<and>
   fst (delete_wishlist (book\<lparr>params_id := Number 1700000000000\<rparr>)
     (run_creates rendering
      [(1700000000000, ''2023-11-14T22:13:20.000Z'', book),
       (1700000000000, ''2023-11-14T22:13:20.000Z'', book)] first_start)) = Reply 200 PSuccess \<and>
   collection (snd (delete_wishlist (book\<lparr>params_id := Number 1700000000000\<rparr>)
     (run_creates rendering
      [(1700000000000, ''2023-11-14T22:13:20.000Z'', book),
       (1700000000000, ''2023-11-14T22:13:20.000Z'', book)] first_start))) = []"
  using imagePath_neq_dataFile [of "Number 1700000000000"]
  by (simp add: first_start_def book_def collection_def post_wishlist_def readFile_def
        JSON_parse_def writeFile_def Let_def json_item_def delete_wishlist_def deleteImage_def unlink_def)

text \<open>
  C3. When the title of a create request is falsy (empty or absent), the handler
  answers 400 with the message \<^verbatim>\<open>Title is required\<close>, and the state of the data
  directory is the one it started from: the document is neither read nor written
  (the record of file operations is unchanged as well).
\<close>

theorem C3_create_without_title:
  assumes "\<not> truthy (body_title req)"
  shows "post_wishlist sh now isoTime req w = (Reply 400 (PError ''Title is required''), w)"
  using assms by (simp add: post_wishlist_def)

theorem C3_create_without_title_witness:
  "\<not> truthy (body_title untitled) \<and>
   post_wishlist rendering 1700000000000 ''2023-11-14T22:13:20.000Z'' untitled first_start
     = (Reply 400 (PError ''Title is required''), first_start)"
  using C3_create_without_title
          [of untitled rendering 1700000000000 "''2023-11-14T22:13:20.000Z''" first_start]
  by (simp add: untitled_def)




text \<open>
  C5 (as amended). When \<open>processImage\<close> cannot store an upload (the input does not
  decode, the pipeline fails, or the path refuses the write),
  \<^verbatim>\<open>POST /api/wishlist/image/:id\<close> answers with the single error 500
  \<^verbatim>\<open>Error processing image\<close>. No file other than \<^verbatim>\<open><id>.jpeg\<close> changes. When
  \<open>metadata\<close> fails nothing happens to the data directory at all. Otherwise the only
  file operation is \<^verbatim>\<open>toFile\<close> on the final path itself: the file there is either as
  before or it is what the failed write left behind.
\<close>

theorem C5_store_failure:
  assumes "req_file req = Some buffer"
    and "\<not> storable sh buffer (params_id req) w"
  shows "\<exists>w'. post_wishlist_image sh req w = (Reply 500 (PError ''Error processing image''), w') \<and>
           unwritable w' = unwritable w \<and>
           (\<forall>p. p \<noteq> imagePath (params_id req) \<longrightarrow> files w' p = files w p) \<and>
           (metadata sh buffer = None \<longrightarrow> w' = w) \<and>
           (trace w' = trace w \<or> trace w' = trace w @ [ToFile (imagePath (params_id req))]) \<and>
           (files w' (imagePath (params_id req)) = files w (imagePath (params_id req)) \<or>
            (\<exists>width height part.
               metadata sh buffer = Some (width, height) \<and>
               pipeline sh buffer (fst (dimensions maxImageSize width height))
                 (snd (dimensions maxImageSize width height)) = SaveFailed (Some part) \<and>
               files w' (imagePath (params_id req)) = Some (Blob part)))"
  using assms
  by (auto simp: post_wishlist_image_def storable_def processImage_def toFile_def
        split: option.splits save_result.splits)

theorem C5_store_failure_witness:
  "req_file upload = Some [137, 80, 78, 71] \<and>
   \<not> storable torn [137, 80, 78, 71] (params_id upload) desk \<and>
   (\<exists>w'. post_wishlist_image torn upload desk
            = (Reply 500 (PError ''Error processing image''), w') \<and>
          files w' dataFile = files desk dataFile)"
proof -
  have h: "req_file upload = Some [137, 80, 78, 71]"
    "\<not> storable torn [137, 80, 78, 71] (params_id upload) desk"
    by (simp_all add: upload_def storable_def torn_def)
  from C5_store_failure [OF h] obtain w' where
    "post_wishlist_image torn upload desk = (Reply 500 (PError ''Error processing image''), w')"
    "\<forall>p. p \<noteq> imagePath (params_id upload) \<longrightarrow> files w' p = files desk p"
    by blast
  then show ?thesis using h imagePath_neq_dataFile [of "params_id upload"] by metis
qed

text \<open>
  A failed write can show at the final path: with a library whose write breaks off
  after output has begun, the request is answered with the error and the final path
  holds the partial output, in place of the image that was there (first item) or
  where no file was before (id 5).
\<close>

theorem C5_torn_write_counterexample:
  "fst (post_wishlist_image torn reupload desk) = Reply 500 (PError ''Error processing image'') \<and>
   files desk (imagePath (params_id reupload)) = Some (Blob [255, 216, 255, 224]) \<and>
   files (snd (post_wishlist_image torn reupload desk)) (imagePath (params_id reupload))
     = Some (Blob [255, 216]) \<and>
   fst (post_wishlist_image torn upload desk) = Reply 500 (PError ''Error processing image'') \<and>
   files desk (imagePath (params_id upload)) = None \<and>
   files (snd (post_wishlist_image torn upload desk)) (imagePath (params_id upload))
     = Some (Blob [255, 216])"
  by (simp add: post_wishlist_image_def processImage_def toFile_def torn_def reupload_def
        upload_def desk_def imagePath_def dataFile_def path_join_def dataDir_def Number_toString_def digit_def)

text \<open>
  C6. With a truthy title, a readable and writable document holding an item whose id
  is the parameter, and an upload (if there is one) that can be stored, \<^verbatim>\<open>PUT\<close>
  answers 200 with the updated item, which replaces the first item carrying the id
  (the document holds what the updated item reads back as). Its \<open>dateAdded\<close> is that
  of the item it replaces and its \<open>dateUpdated\<close> is the clock reading of the update,
  in the answer and in the document (where the \<open>dateAdded\<close> is what the old one
  reads back as: the old one itself, when that is an absent property or a JSON
  value, as it is in an item read from a document).
\<close>

theorem C6_update_dates:
  assumes "truthy (body_title req)"
    and "files w dataFile = Some (Json xs)"
    and "dataFile \<notin> unwritable w"
    and "\<exists>item\<in>set xs. strict_eq (id_f item) (params_id req)"
    and "case req_file req of None \<Rightarrow> True
         | Some buffer \<Rightarrow> storable sh buffer (params_id req) w"
  shows "\<exists>i u w'. put_wishlist sh isoTime req w = (Reply 200 (PItem u), w') \<and>
           i < length xs \<and> strict_eq (id_f (xs ! i)) (params_id req) \<and>
           (\<forall>j<i. \<not> strict_eq (id_f (xs ! j)) (params_id req)) \<and>
           files w' dataFile = Some (Json (xs[i := json_item u])) \<and>
           dateAdded u = dateAdded (xs ! i) \<and> dateUpdated u = JStr isoTime \<and>
           dateAdded (json_item u) = JSON_value (dateAdded (xs ! i)) \<and>
           (round_trips (dateAdded (xs ! i)) \<longrightarrow> dateAdded (json_item u) = dateAdded (xs ! i)) \<and>
           dateUpdated (json_item u) = JStr isoTime"
proof -
  from put_wishlist_found [OF assms, of isoTime] obtain i u w' where
    "put_wishlist sh isoTime req w = (Reply 200 (PItem u), w')"
    "i < length xs" "strict_eq (id_f (xs ! i)) (params_id req)"
    "\<forall>j<i. \<not> strict_eq (id_f (xs ! j)) (params_id req)"
    "files w' dataFile = Some (Json (xs[i := json_item u]))"
    "u = (xs ! i)\<lparr>title := body_title req, url := body_url req,
                     price := body_price req, note_f := body_note req,
                     image_f := (case req_file req of
                                  None \<Rightarrow> if truthy (body_image req) then body_image req
                                          else image_f (xs ! i)
                                | Some buffer \<Rightarrow> JStr (imageUrl (params_id req))),
                     dateUpdated := JStr isoTime\<rparr>"
    by blast
  then show ?thesis
    by (intro exI [of _ i] exI [of _ u] exI [of _ w'])
      (simp add: json_item_def JSON_value_round_trips)
qed

theorem C6_update_dates_witness:
  "truthy (body_title retitle) \<and> files desk dataFile = Some (Json [pen, ink]) \<and>
   dataFile \<notin> unwritable desk \<and>
   (\<exists>item\<in>set [pen, ink]. strict_eq (id_f item) (params_id retitle)) \<and>
   (\<exists>u w'. put_wishlist rendering ''2024-02-03T04:05:06.007Z'' retitle desk
              = (Reply 200 (PItem u), w') \<and>
           files w' dataFile = Some (Json [u, ink]) \<and>
           title u = JStr ''Fountain pen'' \<and>
           dateAdded u = JStr ''2024-01-01T00:00:00.000Z'' \<and>
           dateUpdated u = JStr ''2024-02-03T04:05:06.007Z'')"
proof -
  have h: "truthy (body_title retitle)" "files desk dataFile = Some (Json [pen, ink])"
    "dataFile \<notin> unwritable desk"
    "\<exists>item\<in>set [pen, ink]. strict_eq (id_f item) (params_id retitle)"
    "case req_file retitle of None \<Rightarrow> True
     | Some buffer \<Rightarrow> storable rendering buffer (params_id retitle) desk"
    using desk_doc by (simp_all add: retitle_def desk_def pen_def)
  from C6_update_dates [OF h, of "''2024-02-03T04:05:06.007Z''"] obtain i u w' where
    r: "put_wishlist rendering ''2024-02-03T04:05:06.007Z'' retitle desk = (Reply 200 (PItem u), w')"
    and i: "i < length [pen, ink]" "strict_eq (id_f ([pen, ink] ! i)) (params_id retitle)"
    and f: "files w' dataFile = Some (Json ([pen, ink][i := json_item u]))"
    and d: "dateAdded u = dateAdded ([pen, ink] ! i)" "dateUpdated u = JStr ''2024-02-03T04:05:06.007Z''"
    by blast
  from i have i0: "i = 0"
    by (cases i) (simp_all add: retitle_def ink_def)
  have u: "u = pen\<lparr>title := JStr ''Fountain pen'', url := JUndefined, price := JNum 4,
                   note_f := JUndefined, dateUpdated := JStr ''2024-02-03T04:05:06.007Z''\<rparr>"
    using r by (auto simp: put_wishlist_def readFile_def JSON_parse_def writeFile_def Let_def
        desk_doc retitle_def desk_def pen_def ink_def split: if_splits)
  have j: "json_item u = u" by (simp add: u json_item_def pen_def)
  have t: "title u = JStr ''Fountain pen''" by (simp add: u)
  show ?thesis using h(1-4) r f d t by (auto simp: i0 j pen_def)
qed

text \<open>
  C7. With a readable and writable document, \<^verbatim>\<open>DELETE\<close> for any parameter answers
  with success, and so does the same request repeated at once; the second call
  changes no file. When no item carries the id, the first call already leaves the
  collection as it was, and no file at all changes unless an image file of that id
  exists (which is unlinked whether or not an item carries the id).
\<close>

theorem C7_delete_twice:
  assumes "files w dataFile = Some (Json xs)"
    and "dataFile \<notin> unwritable w"
  shows "\<exists>w1 w2. delete_wishlist req w = (Reply 200 PSuccess, w1) \<and>
           delete_wishlist req w1 = (Reply 200 PSuccess, w2) \<and>
           files w2 = files w1 \<and>
           ((\<forall>item\<in>set xs. \<not> strict_eq (id_f item) (params_id req)) \<longrightarrow>
              collection w1 = xs \<and>
              (files w (imagePath (params_id req)) = None \<longrightarrow> files w1 = files w))"
proof -
  let ?keep = "\<lambda>item. \<not> strict_eq (id_f item) (params_id req)"
  let ?w1 = "snd (delete_wishlist req w)"
  let ?w2 = "snd (delete_wishlist req ?w1)"
  note d1 = delete_wishlist_doc [OF assms, of req]
  have r1: "delete_wishlist req w = (Reply 200 PSuccess, ?w1)"
    by (simp add: delete_wishlist_success [OF assms])
  have doc1: "files ?w1 dataFile = Some (Json (filter ?keep xs))"
    and wr1: "dataFile \<notin> unwritable ?w1"
    using d1 assms(2) by simp_all
  have r2: "delete_wishlist req ?w1 = (Reply 200 PSuccess, ?w2)"
    by (simp add: delete_wishlist_success [OF doc1 wr1])
  have same: "files ?w2 = files ?w1"
  proof -
    have "files ?w2 = files (deleteImage (params_id req)
             (?w1\<lparr>files := (files ?w1)(dataFile \<mapsto> Json (filter ?keep (filter ?keep xs))),
                  trace := trace ?w1 @ [ReadFile dataFile, WriteFile dataFile]\<rparr>))"
      by (simp add: delete_wishlist_success [OF doc1 wr1])
    also have "(files ?w1)(dataFile \<mapsto> Json (filter ?keep (filter ?keep xs))) = files ?w1"
      using doc1 by (auto simp: fun_upd_idem_iff)
    finally have "files ?w2 = files (deleteImage (params_id req)
             (?w1\<lparr>trace := trace ?w1 @ [ReadFile dataFile, WriteFile dataFile]\<rparr>))"
      by simp
    also have "\<dots> = files ?w1"
      by (auto simp: delete_wishlist_success [OF assms] deleteImage_def unlink_def)
    finally show ?thesis .
  qed
  have absent: "collection ?w1 = xs \<and>
              (files w (imagePath (params_id req)) = None \<longrightarrow> files ?w1 = files w)"
    if "\<forall>item\<in>set xs. \<not> strict_eq (id_f item) (params_id req)"
  proof -
    from that have f: "filter ?keep xs = xs" by (simp add: filter_id_conv)
    have "(files w)(dataFile \<mapsto> Json xs) = files w"
      using assms(1) by (auto simp: fun_upd_idem_iff)
    then show ?thesis using doc1 f imagePath_neq_dataFile [of "params_id req"]
      by (auto simp: collection_def delete_wishlist_success [OF assms] deleteImage_def unlink_def)
  qed
  show ?thesis
    by (intro exI [of _ ?w1] exI [of _ ?w2]) (use r1 r2 same absent in blast)
qed

theorem C7_delete_twice_witness:
  "files desk dataFile = Some (Json [pen, ink]) \<and> dataFile \<notin> unwritable desk \<and>
   (\<exists>w1 w2. delete_wishlist discard desk = (Reply 200 PSuccess, w1) \<and>
            delete_wishlist discard w1 = (Reply 200 PSuccess, w2) \<and>
            files w2 = files w1) \<and>
   files desk (imagePath (Number 5)) = None \<and>
   (\<exists>w1 w2. delete_wishlist (discard\<lparr>params_id := Number 5\<rparr>) desk = (Reply 200 PSuccess, w1) \<and>
            delete_wishlist (discard\<lparr>params_id := Number 5\<rparr>) w1 = (Reply 200 PSuccess, w2) \<and>
            collection w1 = [pen, ink] \<and> files w1 = files desk)"
proof -
  have h: "files desk dataFile = Some (Json [pen, ink])" "dataFile \<notin> unwritable desk"
    using desk_doc by (simp_all add: desk_def)
  have a: "\<forall>item\<in>set [pen, ink]. \<not> strict_eq (id_f item) (params_id (discard\<lparr>params_id := Number 5\<rparr>))"
    by (simp add: pen_def ink_def)
  have n: "files desk (imagePath (Number 5)) = None"
    by (simp add: desk_def imagePath_def dataFile_def path_join_def dataDir_def Number_toString_def digit_def)
  from C7_delete_twice [OF h, of discard]
  have 1: "\<exists>w1 w2. delete_wishlist discard desk = (Reply 200 PSuccess, w1) \<and>
            delete_wishlist discard w1 = (Reply 200 PSuccess, w2) \<and>
            files w2 = files w1"
    by blast
  from C7_delete_twice [OF h, of "discard\<lparr>params_id := Number 5\<rparr>"] a n
  have 2: "\<exists>w1 w2. delete_wishlist (discard\<lparr>params_id := Number 5\<rparr>) desk = (Reply 200 PSuccess, w1) \<and>
            delete_wishlist (discard\<lparr>params_id := Number 5\<rparr>) w1 = (Reply 200 PSuccess, w2) \<and>
            collection w1 = [pen, ink] \<and> files w1 = files desk"
    by (simp del: set_simps) blast
  show ?thesis using h 1 n 2 by blast
qed

text \<open>
  C8. Under the conditions of C6, the \<open>image\<close> field of the updated item is: the
  reference of the stored upload when the request carries a file; otherwise the
  image reference of the body when that is truthy; otherwise the reference the item
  had before. The document holds what the updated item reads back as; with no file
  and no truthy image reference in the request, that is the reference the item had
  before whenever that one is an absent property or a JSON value, as it is in an
  item read from a document.
\<close>

theorem C8_update_image:
  assumes "truthy (body_title req)"
    and "files w dataFile = Some (Json xs)"
    and "dataFile \<notin> unwritable w"
    and "\<exists>item\<in>set xs. strict_eq (id_f item) (params_id req)"
    and "case req_file req of None \<Rightarrow> True
         | Some buffer \<Rightarrow> storable sh buffer (params_id req) w"
  shows "\<exists>i u w'. put_wishlist sh isoTime req w = (Reply 200 (PItem u), w') \<and>
           i < length xs \<and> strict_eq (id_f (xs ! i)) (params_id req) \<and>
           (\<forall>j<i. \<not> strict_eq (id_f (xs ! j)) (params_id req)) \<and>
           files w' dataFile = Some (Json (xs[i := json_item u])) \<and>
           image_f u = (case req_file req of
                          None \<Rightarrow> if truthy (body_image req) then body_image req
                                  else image_f (xs ! i)
                        | Some buffer \<Rightarrow> JStr (imageUrl (params_id req))) \<and>
           image_f (json_item u) = JSON_value (image_f u) \<and>
           (req_file req = None \<and> \<not> truthy (body_image req) \<and> round_trips (image_f (xs ! i))
              \<longrightarrow> image_f (json_item u) = image_f (xs ! i))"
proof -
  from put_wishlist_found [OF assms, of isoTime] obtain i u w' where
    "put_wishlist sh isoTime req w = (Reply 200 (PItem u), w')"
    "i < length xs" "strict_eq (id_f (xs ! i)) (params_id req)"
    "\<forall>j<i. \<not> strict_eq (id_f (xs ! j)) (params_id req)"
    "files w' dataFile = Some (Json (xs[i := json_item u]))"
    "u = (xs ! i)\<lparr>title := body_title req, url := body_url req,
                     price := body_price req, note_f := body_note req,
                     image_f := (case req_file req of
                                  None \<Rightarrow> if truthy (body_image req) then body_image req
                                          else image_f (xs ! i)
                                | Some buffer \<Rightarrow> JStr (imageUrl (params_id req))),
                     dateUpdated := JStr isoTime\<rparr>"
    by blast
  then show ?thesis
    by (intro exI [of _ i] exI [of _ u] exI [of _ w'])
      (simp add: json_item_def JSON_value_round_trips)
qed

theorem C8_update_image_witness:
  "truthy (body_title retitle) \<and> files desk dataFile = Some (Json [pen, ink]) \<and>
   dataFile \<notin> unwritable desk \<and>
   (\<exists>item\<in>set [pen, ink]. strict_eq (id_f item) (params_id retitle)) \<and>
   req_file retitle = None \<and> \<not> truthy (body_image retitle) \<and>
   (\<exists>u w'. put_wishlist rendering ''2024-02-03T04:05:06.007Z'' retitle desk
              = (Reply 200 (PItem u), w') \<and>
           files w' dataFile = Some (Json [u, ink]) \<and>
           image_f u = image_f pen)"
proof -
  have h: "truthy (body_title retitle)" "files desk dataFile = Some (Json [pen, ink])"
    "dataFile \<notin> unwritable desk"
    "\<exists>item\<in>set [pen, ink]. strict_eq (id_f item) (params_id retitle)"
    "case req_file retitle of None \<Rightarrow> True
     | Some buffer \<Rightarrow> storable rendering buffer (params_id retitle) desk"
    using desk_doc by (simp_all add: retitle_def desk_def pen_def)
  have n: "req_file retitle = None" "\<not> truthy (body_image retitle)"
    by (simp_all add: retitle_def)
  from C8_update_image [OF h, of "''2024-02-03T04:05:06.007Z''"] obtain i u w' where
    r: "put_wishlist rendering ''2024-02-03T04:05:06.007Z'' retitle desk = (Reply 200 (PItem u), w')"
    and i: "i < length [pen, ink]" "strict_eq (id_f ([pen, ink] ! i)) (params_id retitle)"
    and f: "files w' dataFile = Some (Json ([pen, ink][i := json_item u]))"
    and d: "image_f u = (case req_file retitle of
                          None \<Rightarrow> if truthy (body_image retitle) then body_image retitle
                                  else image_f ([pen, ink] ! i)
                        | Some buffer \<Rightarrow> JStr (imageUrl (params_id retitle)))"
    by blast
  from i have i0: "i = 0"
    by (cases i) (simp_all add: retitle_def ink_def)
  have u: "u = pen\<lparr>title := JStr ''Fountain pen'', url := JUndefined, price := JNum 4,
                   note_f := JUndefined, dateUpdated := JStr ''2024-02-03T04:05:06.007Z''\<rparr>"
    using r by (auto simp: put_wishlist_def readFile_def JSON_parse_def writeFile_def Let_def
        desk_doc retitle_def desk_def pen_def ink_def split: if_splits)
  have j: "json_item u = u" by (simp add: u json_item_def pen_def)
  show ?thesis using h(1-4) n r f d by (auto simp: i0 j)
qed

text \<open>
  C9 (as amended). With a truthy title, a readable and writable document, and an
  upload (if there is one) that can be stored, \<^verbatim>\<open>POST /api/wishlist\<close> answers 200 with
  the new item, and \<^verbatim>\<open>GET /api/wishlist\<close> run on the resulting state lists the old
  items followed by what the new item reads back as from the document. Its title,
  url, price and note are what \<^verbatim>\<open>JSON.stringify\<close> and \<^verbatim>\<open>JSON.parse\<close> make of the
  submitted ones: each is the submitted value itself whenever that value passes
  through JSON unchanged (an absent field, a string, a boolean, \<^verbatim>\<open>null\<close>, a finite
  number other than negative zero, an array or object of such values), while a
  number that is not finite is listed as \<^verbatim>\<open>null\<close>. The image is \<^verbatim>\<open>null\<close> when the
  request has no file and no truthy image reference.
\<close>

theorem C9_create_then_list:
  assumes "truthy (body_title req)"
    and "files w dataFile = Some (Json xs)"
    and "dataFile \<notin> unwritable w"
    and "case req_file req of None \<Rightarrow> True | Some buffer \<Rightarrow> storable sh buffer (Number now) w"
  shows "\<exists>it listed w'. post_wishlist sh now isoTime req w = (Reply 200 (PItem it), w') \<and>
           fst (get_wishlist w') = Reply 200 (PItems (xs @ [listed])) \<and>
           last (xs @ [listed]) = listed \<and> listed = json_item it \<and>
           title it = body_title req \<and> url it = body_url req \<and>
           price it = body_price req \<and> note_f it = body_note req \<and>
           title listed = JSON_value (body_title req) \<and>
           url listed = JSON_value (body_url req) \<and>
           price listed = JSON_value (body_price req) \<and>
           note_f listed = JSON_value (body_note req) \<and>
           (round_trips (body_title req) \<longrightarrow> title listed = body_title req) \<and>
           (round_trips (body_url req) \<longrightarrow> url listed = body_url req) \<and>
           (round_trips (body_price req) \<longrightarrow> price listed = body_price req) \<and>
           (round_trips (body_note req) \<longrightarrow> note_f listed = body_note req) \<and>
           (req_file req = None \<and> \<not> truthy (body_image req) \<longrightarrow> image_f listed = JNull)"
proof -
  from post_wishlist_success [OF assms, of isoTime] obtain w' it where
    it: "it = \<lparr>id_f = now, title = body_title req, url = body_url req,
                     price = body_price req, note_f = body_note req,
                     image_f = (case req_file req of
                                  None \<Rightarrow> if truthy (body_image req) then body_image req else JNull
                                | Some buffer \<Rightarrow> JStr (imageUrl (Number now))),
                     dateAdded = JStr isoTime, dateUpdated = JUndefined\<rparr>"
    and p: "post_wishlist sh now isoTime req w = (Reply 200 (PItem it), w')"
    and f: "files w' dataFile = Some (Json (xs @ [json_item it]))"
    by blast
  have g: "fst (get_wishlist w') = Reply 200 (PItems (xs @ [json_item it]))"
    using f by (rule get_wishlist_doc)
  have fields: "title it = body_title req \<and> url it = body_url req \<and>
           price it = body_price req \<and> note_f it = body_note req"
    by (simp add: it)
  have listed: "title (json_item it) = JSON_value (body_title req) \<and>
           url (json_item it) = JSON_value (body_url req) \<and>
           price (json_item it) = JSON_value (body_price req) \<and>
           note_f (json_item it) = JSON_value (body_note req) \<and>
           (req_file req = None \<and> \<not> truthy (body_image req) \<longrightarrow> image_f (json_item it) = JNull)"
    by (simp add: it json_item_def)
  show ?thesis
    by (intro exI [of _ it] exI [of _ "json_item it"] exI [of _ w'])
      (use p g fields listed in \<open>simp add: JSON_value_round_trips\<close>)
qed

theorem C9_create_then_list_witness:
  "truthy (body_title book) \<and> files first_start dataFile = Some (Json []) \<and>
   dataFile \<notin> unwritable first_start \<and>
   (\<exists>it w'. post_wishlist rendering 1700000000000 ''2023-11-14T22:13:20.000Z'' book first_start
              = (Reply 200 (PItem it), w') \<and>
            fst (get_wishlist w') = Reply 200 (PItems [json_item it]) \<and>
            title (json_item it) = JStr ''Book'' \<and>
            url (json_item it) = JStr ''https://example.org/book'' \<and>
            price (json_item it) = JStr ''12.50'' \<and> note_f (json_item it) = JUndefined \<and>
            image_f (json_item it) = JNull)"
proof -
  have h: "truthy (body_title book)" "files first_start dataFile = Some (Json [])"
    "dataFile \<notin> unwritable first_start"
    "case req_file book of None \<Rightarrow> True
     | Some buffer \<Rightarrow> storable rendering buffer (Number 1700000000000) first_start"
    by (simp_all add: book_def first_start_def)
  from C9_create_then_list [OF h, of "''2023-11-14T22:13:20.000Z''"] obtain it listed w' where
    "post_wishlist rendering 1700000000000 ''2023-11-14T22:13:20.000Z'' book first_start
              = (Reply 200 (PItem it), w')"
    "fst (get_wishlist w') = Reply 200 (PItems ([] @ [listed]))" "listed = json_item it"
    "round_trips (body_title book) \<longrightarrow> title listed = body_title book"
    "round_trips (body_url book) \<longrightarrow> url listed = body_url book"
    "round_trips (body_price book) \<longrightarrow> price listed = body_price book"
    "round_trips (body_note book) \<longrightarrow> note_f listed = body_note book"
    "req_file book = None \<and> \<not> truthy (body_image book) \<longrightarrow> image_f listed = JNull"
    by blast
  then show ?thesis using h(1-3) by (auto simp: book_def round_trips_def)
qed

text \<open>
  A submitted field need not come back intact: for the body
  \<^verbatim>\<open>{"title": "Book", "price": 1e400}\<close> the handler holds the price \<^verbatim>\<open>Infinity\<close>, the
  request succeeds, and the list that follows shows the price \<^verbatim>\<open>null\<close>.
\<close>

theorem C9_overflowing_price_counterexample:
  "truthy (body_title costly) \<and> body_price costly = JInfinity \<and>
   fst (post_wishlist rendering 1700000000000 ''2023-11-14T22:13:20.000Z'' costly first_start)
     = Reply 200 (PItem \<lparr>id_f = 1700000000000, title = JStr ''Book'', url = JUndefined,
                       price = JInfinity, note_f = JUndefined, image_f = JNull,
                       dateAdded = JStr ''2023-11-14T22:13:20.000Z'', dateUpdated = JUndefined\<rparr>) \<and>
   fst (get_wishlist (snd (post_wishlist rendering 1700000000000 ''2023-11-14T22:13:20.000Z''
          costly first_start)))
     = Reply 200 (PItems [\<lparr>id_f = 1700000000000, title = JStr ''Book'', url = JUndefined,
                         price = JNull, note_f = JUndefined, image_f = JNull,
                         dateAdded = JStr ''2023-11-14T22:13:20.000Z'', dateUpdated = JUndefined\<rparr>])"
  by (simp add: costly_def first_start_def post_wishlist_def get_wishlist_def readFile_def
        JSON_parse_def writeFile_def Let_def json_item_def)

text \<open>
  C10 (as amended). \<^verbatim>\<open>POST /api/wishlist/image/:id\<close> never reads or modifies the
  document, for any parameter (also one that no item carries) and any upload,
  stored or not: the document and the collection are as before, no file other
  than \<^verbatim>\<open><id>.jpeg\<close> changes, and the only file operation, if there is one, is the
  \<^verbatim>\<open>toFile\<close> on \<^verbatim>\<open><id>.jpeg\<close>. The request is answered 200 with the reference
  \<^verbatim>\<open>/api/images/<id>.jpeg\<close> exactly when it carries a file that the library decodes
  and renders at the computed target and the path accepts the write; then the file
  holds the library's output. That the image can be decoded is not enough.
\<close>

theorem C10_upload_leaves_document:
  "files (snd (post_wishlist_image sh req w)) dataFile = files w dataFile \<and>
   collection (snd (post_wishlist_image sh req w)) = collection w \<and>
   unwritable (snd (post_wishlist_image sh req w)) = unwritable w \<and>
   (\<forall>p. p \<noteq> imagePath (params_id req) \<longrightarrow>
        files (snd (post_wishlist_image sh req w)) p = files w p) \<and>
   (trace (snd (post_wishlist_image sh req w)) = trace w \<or>
    trace (snd (post_wishlist_image sh req w)) = trace w @ [ToFile (imagePath (params_id req))]) \<and>
   (fst (post_wishlist_image sh req w) = Reply 200 (PImageUrl (imageUrl (params_id req))) \<longleftrightarrow>
      (\<exists>buffer. req_file req = Some buffer \<and> storable sh buffer (params_id req) w)) \<and>
   (\<forall>buffer. req_file req = Some buffer \<and> storable sh buffer (params_id req) w \<longrightarrow>
      (\<exists>out width height.
         metadata sh buffer = Some (width, height) \<and>
         pipeline sh buffer (fst (dimensions maxImageSize width height))
           (snd (dimensions maxImageSize width height)) = Saved out \<and>
         files (snd (post_wishlist_image sh req w))
           = (files w)(imagePath (params_id req) \<mapsto> Blob out) \<and>
         trace (snd (post_wishlist_image sh req w))
           = trace w @ [ToFile (imagePath (params_id req))])) \<and>
   (\<forall>buffer. req_file req = Some buffer \<and> \<not> storable sh buffer (params_id req) w \<longrightarrow>
      fst (post_wishlist_image sh req w) = Reply 500 (PError ''Error processing image'')) \<and>
   (req_file req = None \<longrightarrow>
      post_wishlist_image sh req w = (Reply 400 (PError ''No image file provided''), w))"
proof (cases "req_file req")
  case None
  then show ?thesis by (simp add: post_wishlist_image_def)
next
  case (Some buffer)
  show ?thesis
  proof (cases "storable sh buffer (params_id req) w")
    case True
    then obtain width height where m: "metadata sh buffer = Some (width, height)"
      by (cases "metadata sh buffer") (auto simp: storable_def)
    from True m have wr: "imagePath (params_id req) \<notin> unwritable w"
      by (simp add: storable_def)
    from True m obtain out where
      p: "pipeline sh buffer (fst (dimensions maxImageSize width height))
                (snd (dimensions maxImageSize width height)) = Saved out"
      by (cases "pipeline sh buffer (fst (dimensions maxImageSize width height))
                (snd (dimensions maxImageSize width height))") (auto simp: storable_def)
    have r: "post_wishlist_image sh req w =
               (Reply 200 (PImageUrl (imageUrl (params_id req))),
                w\<lparr>files := (files w)(imagePath (params_id req) \<mapsto> Blob out),
                  trace := trace w @ [ToFile (imagePath (params_id req))]\<rparr>)"
      using Some m p wr by (simp add: post_wishlist_image_def processImage_def toFile_def)
    show ?thesis
      using Some True m p imagePath_neq_dataFile [of "params_id req"]
      by (simp add: r collection_def)
  next
    case False
    from processImage_not_storable [OF False] obtain e w' where
      pi: "processImage sh buffer (params_id req) w = (Inl e, w')" by blast
    from processImage_frame [OF pi] have
      fr: "unwritable w' = unwritable w" "\<forall>p. p \<noteq> imagePath (params_id req) \<longrightarrow> files w' p = files w p"
      by simp_all
    have tr: "trace w' = trace w \<or> trace w' = trace w @ [ToFile (imagePath (params_id req))]"
      using pi by (auto simp: processImage_def toFile_def
          split: option.splits save_result.splits if_splits)
    have r: "post_wishlist_image sh req w = (Reply 500 (PError ''Error processing image''), w')"
      using Some pi by (simp add: post_wishlist_image_def)
    have doc: "files w' dataFile = files w dataFile"
      using fr(2) imagePath_neq_dataFile [of "params_id req"] by metis
    show ?thesis
      using Some False fr tr doc by (simp add: r collection_def)
  qed
qed

theorem C10_upload_leaves_document_witness:
  "req_file upload = Some [137, 80, 78, 71] \<and>
   storable rendering [137, 80, 78, 71] (params_id upload) desk \<and>
   \<not> (\<exists>item\<in>set (collection desk). strict_eq (id_f item) (params_id upload)) \<and>
   fst (post_wishlist_image rendering upload desk) = Reply 200 (PImageUrl ''/api/images/5.jpeg'') \<and>
   files (snd (post_wishlist_image rendering upload desk))
     = (files desk)(''data/5.jpeg'' \<mapsto> Blob [255, 216, 255]) \<and>
   collection (snd (post_wishlist_image rendering upload desk)) = [pen, ink] \<and>
   trace (snd (post_wishlist_image rendering upload desk)) = [ToFile ''data/5.jpeg'']"
proof -
  have h: "req_file upload = Some [137, 80, 78, 71]"
    "storable rendering [137, 80, 78, 71] (params_id upload) desk"
    by (simp_all add: upload_def storable_def rendering_def desk_def)
  have c: "collection desk = [pen, ink]"
    using desk_doc by (simp add: collection_def)
  have a: "\<not> (\<exists>item\<in>set (collection desk). strict_eq (id_f item) (params_id upload))"
    by (simp add: c pen_def ink_def upload_def)
  have p: "imagePath (params_id upload) = ''data/5.jpeg''"
    "imageUrl (params_id upload) = ''/api/images/5.jpeg''"
    by (simp_all add: upload_def imagePath_def imageUrl_def path_join_def dataDir_def
          Number_toString_def digit_def)
  note t = C10_upload_leaves_document [of rendering upload desk]
  from t h have r: "fst (post_wishlist_image rendering upload desk)
                      = Reply 200 (PImageUrl (imageUrl (params_id upload)))"
    by blast
  from t h obtain out width height where
    o: "pipeline rendering [137, 80, 78, 71] (fst (dimensions maxImageSize width height))
           (snd (dimensions maxImageSize width height)) = Saved out"
    "files (snd (post_wishlist_image rendering upload desk))
           = (files desk)(imagePath (params_id upload) \<mapsto> Blob out)"
    "trace (snd (post_wishlist_image rendering upload desk))
           = trace desk @ [ToFile (imagePath (params_id upload))]"
    by blast
  from o(1) have out: "out = [255, 216, 255]" by (simp add: rendering_def)
  from t have k: "collection (snd (post_wishlist_image rendering upload desk)) = collection desk"
    by blast
  have tr: "trace desk = []" by (simp add: desk_def)
  show ?thesis using h a r o(2,3) k by (simp add: p c out tr)
qed

text \<open>
  An image that can be decoded is not always stored: the upload of an image 4000
  wide and 1 high, for which the computed target height is 0, is answered with the
  error although the library has decoded it and the path accepts writes.
\<close>

theorem C10_decodable_not_stored_counterexample:
  "req_file sliver = Some [4000, 1] \<and>
   metadata resizer [4000, 1] = Some (4000, 1) \<and>
   imagePath (params_id sliver) \<notin> unwritable desk \<and>
   fst (post_wishlist_image resizer sliver desk) = Reply 500 (PError ''Error processing image'') \<and>
   files (snd (post_wishlist_image resizer sliver desk)) = files desk"
proof -
  have d: "dimensions maxImageSize 4000 1 = (1024, 0)" by code_simp
  have m: "metadata resizer [4000, 1] = Some (4000, 1)" by (simp add: resizer_def)
  have p: "pipeline resizer [4000, 1] 1024 0 = SaveFailed None" by (simp add: resizer_def)
  have w: "imagePath (params_id sliver) \<notin> unwritable desk" by (simp add: desk_def)
  have f: "req_file sliver = Some [4000, 1]" by (simp add: sliver_def)
  show ?thesis
    using m p w f by (simp add: post_wishlist_image_def processImage_def toFile_def d)
qed

end
